theory Spec2Isabelle
  imports Main
begin

section \<open>Strings\<close>

text \<open>
  Python \<open>str\<close> values are modelled as HOL strings. The two characters the module
  treats specially are the path separator and the backslash.
\<close>

definition SLASH :: char where
  "SLASH = CHR ''/''"

definition BACKSLASH :: char where
  "BACKSLASH = CHR 0x5C"

definition NUL :: char where
  "NUL = CHR 0x00"

text \<open>
  \<open>s.replace(old, new)\<close>: every non-overlapping occurrence of \<open>old\<close>, scanning from
  the left, is replaced by \<open>new\<close>. For an empty \<open>old\<close> Python puts \<open>new\<close> before
  every character and at the end.
\<close>

function str_replace :: "string \<Rightarrow> string \<Rightarrow> string \<Rightarrow> string" where
  "str_replace old new s =
     (if old = [] then new @ concat (map (\<lambda>c. c # new) s)
      else if s = [] then []
      else if take (length old) s = old
        then new @ str_replace old new (drop (length old) s)
      else hd s # str_replace old new (tl s))"
  by pat_completeness auto
termination
  by (relation "measure (\<lambda>(old, new, s). length s)") auto

declare str_replace.simps [simp del]

text \<open>\<open>s.split(sep)\<close> for a one-character separator, and \<open>sep.join(parts)\<close>.\<close>

fun str_split :: "char \<Rightarrow> string \<Rightarrow> string list" where
  "str_split sep [] = [[]]"
| "str_split sep (c # cs) =
     (if c = sep then [] # str_split sep cs
      else (case str_split sep cs of
              [] \<Rightarrow> [[c]]
            | x # xs \<Rightarrow> (c # x) # xs))"

fun sep_join :: "string \<Rightarrow> string list \<Rightarrow> string" where
  "sep_join sep [] = []"
| "sep_join sep [x] = x"
| "sep_join sep (x # y # ys) = x @ sep @ sep_join sep (y # ys)"

section \<open>The serving URL\<close>

definition STATIC_SERVER_BASE :: string where
  "STATIC_SERVER_BASE = ''http://127.0.0.1:8888/files/''"

text \<open>
  \<open>get_file_serve_url\<close> takes no state: the source touches neither the file system
  nor the storage client on this path.
\<close>

definition get_file_serve_url :: "string option \<Rightarrow> string option" where
  "get_file_serve_url filename =
     (case filename of
        None \<Rightarrow> None
      | Some f \<Rightarrow> Some (STATIC_SERVER_BASE @ str_replace [BACKSLASH] [SLASH] f))"

section \<open>Exceptions\<close>

text \<open>
  Every exception the module can raise or meet is a value. \<open>OSError\<close> carries the
  subclass, as \<open>except OSError\<close> catches all of them; Pillow's
  \<open>UnidentifiedImageError\<close> and its "cannot write mode" error are \<open>OSError\<close>s too.
\<close>

datatype oserror =
    FileNotFoundError
  | IsADirectoryError
  | NotADirectoryError
  | FileExistsError
  | UnidentifiedImageError
  | CannotWriteMode

datatype exn =
    KeyError string
  | AttributeError
  | TypeError
  | ValueError
  | OSError oserror
  | StorageException

fun is_OSError :: "exn \<Rightarrow> bool" where
  "is_OSError (OSError _) = True"
| "is_OSError _ = False"

section \<open>Dates\<close>

text \<open>
  \<open>datetime.datetime.now()\<close> reads the wall clock; only its date is used.
  \<open>strftime("%Y-%m-%d")\<close> pads the year to four digits and month and day to two
  (\<open>datetime\<close> keeps the year within 1..9999).
\<close>

record date =
  year :: nat
  month :: nat
  day :: nat

definition digit_char :: "nat \<Rightarrow> char" where
  "digit_char d = ''0123456789'' ! (d mod 10)"

definition pad2 :: "nat \<Rightarrow> string" where
  "pad2 n = [digit_char (n div 10), digit_char n]"

definition pad4 :: "nat \<Rightarrow> string" where
  "pad4 n = [digit_char (n div 1000), digit_char (n div 100), digit_char (n div 10), digit_char n]"

definition strftime_ymd :: "date \<Rightarrow> string" where
  "strftime_ymd d = pad4 (year d) @ ''-'' @ pad2 (month d) @ ''-'' @ pad2 (day d)"

section \<open>Metadata values and JSON\<close>

text \<open>
  The values a metadata dictionary holds: the JSON-representable Python values
  (floats left out). A \<open>dict\<close> is an association list in insertion order; its keys
  are strings.
\<close>

datatype pyval =
    PNone
  | PBool bool
  | PInt int
  | PStr string
  | PList "pyval list"
  | PDict "(string \<times> pyval) list"

type_synonym pydict = "(string \<times> pyval) list"

definition QUOTE :: char where
  "QUOTE = CHR 0x22"

function dec_nat :: "nat \<Rightarrow> string" where
  "dec_nat n = (if n < 10 then [digit_char n] else dec_nat (n div 10) @ [digit_char n])"
  by pat_completeness auto
termination
  by (relation "measure id") auto

declare dec_nat.simps [simp del]

definition str_int :: "int \<Rightarrow> string" where
  "str_int i = (if i < 0 then CHR ''-'' # dec_nat (nat (- i)) else dec_nat (nat i))"

definition hex_digit :: "nat \<Rightarrow> char" where
  "hex_digit d = ''0123456789abcdef'' ! (d mod 16)"

text \<open>
  \<open>json.dumps\<close> with its defaults (\<open>ensure_ascii=True\<close>, separators \<open>", "\<close> and
  \<open>": "\<close>): inside a string, the quote, the backslash and every character outside
  the printable ASCII range are escaped.
\<close>

definition json_escape_char :: "char \<Rightarrow> string" where
  "json_escape_char c =
     (let n = (of_char c :: nat) in
      if c = QUOTE then [BACKSLASH, QUOTE]
      else if c = BACKSLASH then [BACKSLASH, BACKSLASH]
      else if n = 0x0A then [BACKSLASH, CHR ''n'']
      else if n = 0x0D then [BACKSLASH, CHR ''r'']
      else if n = 0x09 then [BACKSLASH, CHR ''t'']
      else if n = 0x08 then [BACKSLASH, CHR ''b'']
      else if n = 0x0C then [BACKSLASH, CHR ''f'']
      else if 0x20 \<le> n \<and> n \<le> 0x7E then [c]
      else [BACKSLASH, CHR ''u'', CHR ''0'', CHR ''0'', hex_digit (n div 16), hex_digit n])"

definition json_string :: "string \<Rightarrow> string" where
  "json_string s = QUOTE # concat (map json_escape_char s) @ [QUOTE]"

fun json_value :: "pyval \<Rightarrow> string" where
  "json_value PNone = ''null''"
| "json_value (PBool b) = (if b then ''true'' else ''false'')"
| "json_value (PInt i) = str_int i"
| "json_value (PStr s) = json_string s"
| "json_value (PList xs) = ''['' @ sep_join '', '' (map json_value xs) @ '']''"
| "json_value (PDict kvs) =
     ''{'' @ sep_join '', '' (map (\<lambda>kv. json_string (fst kv) @ '': '' @ json_value (snd kv)) kvs) @ ''}''"

definition json_dumps :: "pydict \<Rightarrow> string" where
  "json_dumps d = json_value (PDict d)"

section \<open>Reading JSON\<close>









definition cons_result :: "char \<Rightarrow> (string \<times> string) option \<Rightarrow> (string \<times> string) option" where
  "cons_result c r = (case r of None \<Rightarrow> None | Some (t, rest) \<Rightarrow> Some (c # t, rest))"







section \<open>Paths\<close>

text \<open>
  The module runs with the POSIX path convention: \<open>os.path\<close> is \<open>posixpath\<close>
  and \<open>Path\<close> is \<open>PosixPath\<close>.
\<close>

definition os_path_join :: "string \<Rightarrow> string \<Rightarrow> string" where
  "os_path_join a b =
     (if b \<noteq> [] \<and> hd b = SLASH then b
      else if a = [] \<or> last a = SLASH then a @ b
      else a @ SLASH # b)"

definition os_path_dirname :: "string \<Rightarrow> string" where
  "os_path_dirname p =
     (let head = rev (dropWhile (\<lambda>c. c \<noteq> SLASH) (rev p)) in
      if head \<noteq> [] \<and> \<not> list_all (\<lambda>c. c = SLASH) head
      then rev (dropWhile (\<lambda>c. c = SLASH) (rev head))
      else head)"

text \<open>
  \<open>Path(s)\<close> parses \<open>s\<close> into a root and its parts, dropping empty parts and
  \<open>.\<close> parts (never \<open>..\<close>); exactly two leading slashes are kept as the root
  \<open>//\<close>. \<open>str\<close> of the empty path is \<open>.\<close>, and \<open>as_posix\<close> replaces the
  flavour's separator by a slash.
\<close>

definition splitroot :: "string \<Rightarrow> string \<times> string" where
  "splitroot part =
     (if part \<noteq> [] \<and> hd part = SLASH then
        (let stripped = dropWhile (\<lambda>c. c = SLASH) part in
         if length part - length stripped = 2 then ([SLASH, SLASH], stripped)
         else ([SLASH], stripped))
      else ([], part))"

definition path_parts :: "string \<Rightarrow> string list" where
  "path_parts rel = filter (\<lambda>x. x \<noteq> [] \<and> x \<noteq> ''.'') (str_split SLASH rel)"

definition path_str :: "string \<Rightarrow> string" where
  "path_str s =
     (case splitroot s of (root, rel) \<Rightarrow>
        (let r = root @ sep_join [SLASH] (path_parts rel) in
         if r = [] then ''.'' else r))"

definition as_posix :: "string \<Rightarrow> string" where
  "as_posix s = str_replace [SLASH] ''/'' (path_str s)"

section \<open>The file system\<close>

text \<open>
  A stored image file is represented by what a decoder recovers from it: the
  container format, the raster and, for PNG, the text chunks. Any other file is
  raw bytes. The raster is a list of rows of samples.
\<close>

type_synonym ndarray = "nat list list"

datatype image_format = PNG | JPEG | WEBP

record image_file =
  file_format :: image_format
  pixels :: ndarray
  text_chunks :: "(string \<times> string) list"

datatype fcontent = ImageData image_file | RawData "nat list"

datatype node = Dir | File fcontent

text \<open>
  The file system maps the location of a node, the list of names from the root,
  to the node. Symbolic links and permissions are not modelled.
\<close>

type_synonym filesystem = "string list \<Rightarrow> node option"

text \<open>
  Path resolution walks the components from a directory: every component,
  also an empty one or \<open>.\<close>, is looked up in a directory that must exist. The
  walk ends at the location of the last component, which may hold nothing.
\<close>

fun walk :: "filesystem \<Rightarrow> string list \<Rightarrow> string list \<Rightarrow> oserror + string list" where
  "walk fs cur [] = Inr cur"
| "walk fs cur (c # cs) =
     (case fs cur of
        None \<Rightarrow> Inl FileNotFoundError
      | Some (File _) \<Rightarrow> Inl NotADirectoryError
      | Some Dir \<Rightarrow>
          if c = [] \<or> c = ''.'' then walk fs cur cs
          else if c = ''..'' then walk fs (butlast cur) cs
          else walk fs (cur @ [c]) cs)"

text \<open>
  A path with an embedded null character is refused by every system call with
  \<open>ValueError\<close>, which is not an \<open>OSError\<close>. Relative paths are resolved from
  the root: the module only resolves paths joined to its absolute output
  directory.
\<close>

definition locate :: "filesystem \<Rightarrow> string \<Rightarrow> exn + string list" where
  "locate fs p =
     (if NUL \<in> set p then Inl ValueError
      else if p = [] then Inl (OSError FileNotFoundError)
      else (case walk fs [] (str_split SLASH p) of
              Inl e \<Rightarrow> Inl (OSError e)
            | Inr loc \<Rightarrow> Inr loc))"

definition os_stat :: "filesystem \<Rightarrow> string \<Rightarrow> exn + node" where
  "os_stat fs p =
     (case locate fs p of
        Inl e \<Rightarrow> Inl e
      | Inr loc \<Rightarrow>
          (case fs loc of
             None \<Rightarrow> Inl (OSError FileNotFoundError)
           | Some n \<Rightarrow> Inr n))"

text \<open>
  \<open>os.path.exists\<close> and \<open>os.path.isfile\<close> answer \<open>False\<close> on \<open>OSError\<close> and on
  \<open>ValueError\<close>.
\<close>

definition os_path_exists :: "filesystem \<Rightarrow> string \<Rightarrow> bool" where
  "os_path_exists fs p = (case os_stat fs p of Inl _ \<Rightarrow> False | Inr _ \<Rightarrow> True)"

definition os_path_isfile :: "filesystem \<Rightarrow> string \<Rightarrow> bool" where
  "os_path_isfile fs p = (case os_stat fs p of Inr (File _) \<Rightarrow> True | _ \<Rightarrow> False)"


text \<open>
  \<open>os.makedirs(p, exist_ok=True)\<close> creates every missing directory along the path.
  A directory made before a failure stays.
\<close>

fun mkdirs :: "filesystem \<Rightarrow> string list \<Rightarrow> string list \<Rightarrow> (exn + unit) \<times> filesystem" where
  "mkdirs fs cur [] =
     (case fs cur of
        Some (File _) \<Rightarrow> (Inl (OSError FileExistsError), fs)
      | _ \<Rightarrow> (Inr (), fs))"
| "mkdirs fs cur (c # cs) =
     (case fs cur of
        None \<Rightarrow> (Inl (OSError FileNotFoundError), fs)
      | Some (File _) \<Rightarrow> (Inl (OSError NotADirectoryError), fs)
      | Some Dir \<Rightarrow>
          if c = [] \<or> c = ''.'' then mkdirs fs cur cs
          else if c = ''..'' then mkdirs fs (butlast cur) cs
          else (case fs (cur @ [c]) of
                  None \<Rightarrow> mkdirs (fs(cur @ [c] \<mapsto> Dir)) (cur @ [c]) cs
                | Some _ \<Rightarrow> mkdirs fs (cur @ [c]) cs))"

definition os_makedirs :: "filesystem \<Rightarrow> string \<Rightarrow> (exn + unit) \<times> filesystem" where
  "os_makedirs fs p =
     (if NUL \<in> set p then (Inl ValueError, fs)
      else if p = [] then (Inl (OSError FileNotFoundError), fs)
      else mkdirs fs [] (str_split SLASH p))"

section \<open>The image codec\<close>

text \<open>
  Pillow looks a format name up in upper case; \<open>PNG\<close>, \<open>JPEG\<close> and \<open>WEBP\<close> are
  the registered names the module can pass.
\<close>

definition ascii_upper :: "char \<Rightarrow> char" where
  "ascii_upper c =
     (let n = (of_char c :: nat) in
      if 97 \<le> n \<and> n \<le> 122 then char_of (n - 32) else c)"

definition pil_format :: "string \<Rightarrow> image_format option" where
  "pil_format name =
     map_of [(''PNG'', PNG), (''JPEG'', JPEG), (''WEBP'', WEBP)] (map ascii_upper name)"

text \<open>
  \<open>PngInfo.add_text(key, value)\<close> encodes \<open>value\<close> with \<open>value.encode\<close>: a value
  that is not a string has no such attribute.
\<close>

type_synonym pnginfo = "(string \<times> string) list"

definition add_text :: "pnginfo \<Rightarrow> string \<Rightarrow> pyval \<Rightarrow> exn + pnginfo" where
  "add_text info key v =
     (case v of
        PStr t \<Rightarrow> Inr (info @ [(key, t)])
      | _ \<Rightarrow> Inl AttributeError)"

section \<open>Notions used in the proofs\<close>





section \<open>The environment and the world\<close>

text \<open>
  What is fixed when the module is loaded, and what the codec and the storage
  client compute: the output directory, the bucket name read from the process
  environment, which arrays \<open>Image.fromarray\<close> accepts, which rasters an encoder
  can write, the bytes the PNG encoder produces, and the public URL the client
  derives for a bucket and a key.
\<close>

record env =
  output_dir :: string
  SUPABASE_BUCKET_NAME :: "string option"
  fromarray_ok :: "ndarray \<Rightarrow> bool"
  encoder_ok :: "ndarray \<Rightarrow> image_format \<Rightarrow> bool"
  png_encode :: "ndarray \<Rightarrow> nat list"
  get_public_url :: "string option \<Rightarrow> string \<Rightarrow> string"

datatype level = INFO | WARN | ERROR

record remote_object =
  object_data :: fcontent
  content_type :: string

text \<open>
  What the operations read and change: the file system, the wall clock, the
  logger's output and the remote bucket store. The storage service refuses an
  upload when it cannot be reached or when the key is taken.
\<close>

record world =
  fs :: filesystem
  clock :: date
  logged :: "(level \<times> string) list"
  storage_up :: bool
  storage_objects :: "string option \<times> string \<Rightarrow> remote_object option"




text \<open>
  \<open>Image.fromarray(img).save(file_path, format=..., pnginfo=...)\<close>: the array is
  wrapped, the format looked up, the file opened for writing (created or
  truncated), then encoded into. When the encoder refuses the raster, a file
  the call created is removed and one that was there stays truncated. Text
  chunks are written by the PNG encoder only.
\<close>

definition image_save ::
  "env \<Rightarrow> filesystem \<Rightarrow> ndarray \<Rightarrow> string \<Rightarrow> string \<Rightarrow> pnginfo option \<Rightarrow> (exn + unit) \<times> filesystem" where
  "image_save env fs0 img file_path format_name info =
     (if \<not> fromarray_ok env img then (Inl TypeError, fs0)
      else (case pil_format format_name of
        None \<Rightarrow> (Inl (KeyError (map ascii_upper format_name)), fs0)
      | Some fmt \<Rightarrow>
         (case locate fs0 file_path of
            Inl e \<Rightarrow> (Inl e, fs0)
          | Inr loc \<Rightarrow>
             (case fs0 loc of
                Some Dir \<Rightarrow> (Inl (OSError IsADirectoryError), fs0)
              | old \<Rightarrow>
                 if \<not> encoder_ok env img fmt then
                   (Inl (OSError CannotWriteMode),
                    (case old of None \<Rightarrow> fs0 | Some _ \<Rightarrow> fs0(loc \<mapsto> File (RawData []))))
                 else
                   (Inr (),
                    fs0(loc \<mapsto> File (ImageData
                      \<lparr>file_format = fmt, pixels = img,
                       text_chunks = (if fmt = PNG then (case info of None \<Rightarrow> [] | Some t \<Rightarrow> t) else [])\<rparr>)))))))"

text \<open>
  \<open>Image.open(file_path)\<close> followed by \<open>img.save(buffer, format='PNG')\<close>: the text
  chunks of the opened file are not written again.
\<close>

definition image_open :: "filesystem \<Rightarrow> string \<Rightarrow> exn + image_file" where
  "image_open fs0 file_path =
     (case os_stat fs0 file_path of
        Inl e \<Rightarrow> Inl e
      | Inr Dir \<Rightarrow> Inl (OSError IsADirectoryError)
      | Inr (File (RawData _)) \<Rightarrow> Inl (OSError UnidentifiedImageError)
      | Inr (File (ImageData f)) \<Rightarrow> Inr f)"

definition save_to_buffer :: "env \<Rightarrow> image_file \<Rightarrow> string \<Rightarrow> exn + nat list" where
  "save_to_buffer env img format_name =
     (case pil_format format_name of
        None \<Rightarrow> Inl (KeyError (map ascii_upper format_name))
      | Some fmt \<Rightarrow>
          if \<not> encoder_ok env (pixels img) fmt then Inl (OSError CannotWriteMode)
          else Inr (png_encode env (pixels img)))"

section \<open>Base64\<close>

definition b64_alphabet :: string where
  "b64_alphabet = ''ABCDEFGHIJKLMNOPQRSTUVWXYZabcdefghijklmnopqrstuvwxyz0123456789+/''"

definition b64_char :: "nat \<Rightarrow> nat" where
  "b64_char n = of_char (b64_alphabet ! (n mod 64))"

text \<open>Bytes are numbers below 256; 61 is the padding character \<open>=\<close>.\<close>

fun b64encode :: "nat list \<Rightarrow> nat list" where
  "b64encode [] = []"
| "b64encode [a] = [b64_char (a div 4), b64_char ((a mod 4) * 16), 61, 61]"
| "b64encode [a, b] =
     [b64_char (a div 4), b64_char ((a mod 4) * 16 + b div 16), b64_char ((b mod 16) * 4), 61]"
| "b64encode (a # b # c # rest) =
     [b64_char (a div 4), b64_char ((a mod 4) * 16 + b div 16),
      b64_char ((b mod 16) * 4 + c div 64), b64_char (c mod 64)] @ b64encode rest"

text \<open>
  \<open>bytes.decode('utf-8')\<close> on ASCII bytes gives the characters with the same
  codes. A byte above 127 belongs to a multi-byte sequence, which is outside this
  model: the result is \<open>None\<close> there.
\<close>

definition decode_utf8 :: "nat list \<Rightarrow> string option" where
  "decode_utf8 bs = (if list_all (\<lambda>b. b < 128) bs then Some (map char_of bs) else None)"

section \<open>The operations\<close>

text \<open>
  The block of \<open>save_output_file\<close> that builds \<open>meta\<close>: \<open>None\<close>, or a \<open>PngInfo\<close>
  with the two text entries. The subscript \<open>image_meta['metadata_scheme']\<close> is
  evaluated before the second \<open>add_text\<close> is called.
\<close>

definition build_meta :: "string \<Rightarrow> pydict \<Rightarrow> exn + pnginfo option" where
  "build_meta extension image_meta =
     (if extension = ''png'' \<and> image_meta \<noteq> [] then
        (case add_text [] ''parameters'' (PStr (json_dumps image_meta)) of
           Inl e \<Rightarrow> Inl e
         | Inr m1 \<Rightarrow>
            (case map_of image_meta ''metadata_scheme'' of
               None \<Rightarrow> Inl (KeyError ''metadata_scheme'')
             | Some v \<Rightarrow>
                (case add_text m1 ''fooocus_scheme'' v of
                   Inl e \<Rightarrow> Inl e
                 | Inr m2 \<Rightarrow> Inr (Some m2))))
      else Inr None)"

definition save_output_file ::
  "env \<Rightarrow> world \<Rightarrow> ndarray \<Rightarrow> pydict option \<Rightarrow> string \<Rightarrow> string \<Rightarrow> (exn + string) \<times> world" where
  "save_output_file env w img image_meta image_name extension =
     (let date_string = strftime_ymd (clock w);
          filename = os_path_join date_string (image_name @ ''.'' @ extension);
          file_path = os_path_join (output_dir env) filename;
          extension' = (if extension \<notin> set [''png'', ''jpeg'', ''webp''] then ''png'' else extension);
          image_meta' = (case image_meta of None \<Rightarrow> [] | Some m \<Rightarrow> m);
          meta = build_meta extension' image_meta'
      in case meta of
           Inl e \<Rightarrow> (Inl e, w)
         | Inr info \<Rightarrow>
            (case os_makedirs (fs w) (os_path_dirname file_path) of
               (Inl e, fs1) \<Rightarrow> (Inl e, w\<lparr>fs := fs1\<rparr>)
             | (Inr _, fs1) \<Rightarrow>
                (case image_save env fs1 img file_path extension' info of
                   (Inl e, fs2) \<Rightarrow> (Inl e, w\<lparr>fs := fs2\<rparr>)
                 | (Inr _, fs2) \<Rightarrow> (Inr (as_posix filename), w\<lparr>fs := fs2\<rparr>))))"


definition output_file_to_bytesimg :: "env \<Rightarrow> world \<Rightarrow> string option \<Rightarrow> exn + nat list option" where
  "output_file_to_bytesimg env w filename =
     (case filename of
        None \<Rightarrow> Inr None
      | Some f \<Rightarrow>
         (let file_path = os_path_join (output_dir env) f in
          if \<not> os_path_exists (fs w) file_path \<or> \<not> os_path_isfile (fs w) file_path then Inr None
          else (case image_open (fs w) file_path of
                  Inl e \<Rightarrow> Inl e
                | Inr img \<Rightarrow>
                   (case save_to_buffer env img ''PNG'' of
                      Inl e \<Rightarrow> Inl e
                    | Inr byte_data \<Rightarrow> Inr (Some byte_data)))))"

definition output_file_to_base64img :: "env \<Rightarrow> world \<Rightarrow> string option \<Rightarrow> exn + string option" where
  "output_file_to_base64img env w filename =
     (case filename of
        None \<Rightarrow> Inr None
      | Some f \<Rightarrow>
         (let file_path = os_path_join (output_dir env) f in
          if \<not> os_path_exists (fs w) file_path \<or> \<not> os_path_isfile (fs w) file_path then Inr None
          else (case image_open (fs w) file_path of
                  Inl e \<Rightarrow> Inl e
                | Inr img \<Rightarrow>
                   (case save_to_buffer env img ''PNG'' of
                      Inl e \<Rightarrow> Inl e
                    | Inr byte_data \<Rightarrow>
                       (case decode_utf8 (b64encode byte_data) of
                          None \<Rightarrow> Inl ValueError
                        | Some base64_str \<Rightarrow> Inr (Some base64_str))))))"

text \<open>
  The storage client's \<open>upload\<close> reads the local file and posts it under the key
  with the given content type; the service answers with an error when it is not
  reachable or when the key exists already.
\<close>

definition storage_upload ::
  "world \<Rightarrow> string option \<Rightarrow> string \<Rightarrow> string \<Rightarrow> string \<Rightarrow> (exn + unit) \<times> world" where
  "storage_upload w bucket file_path path ctype =
     (case os_stat (fs w) file_path of
        Inl e \<Rightarrow> (Inl e, w)
      | Inr Dir \<Rightarrow> (Inl (OSError IsADirectoryError), w)
      | Inr (File c) \<Rightarrow>
          if \<not> storage_up w \<or> storage_objects w (bucket, path) \<noteq> None
          then (Inl StorageException, w)
          else (Inr (),
                w\<lparr>storage_objects := (storage_objects w)
                     ((bucket, path) \<mapsto> \<lparr>object_data = c, content_type = ctype\<rparr>)\<rparr>))"

definition upload_to_storage ::
  "env \<Rightarrow> world \<Rightarrow> string option \<Rightarrow> string option \<Rightarrow> string option \<Rightarrow> (exn + string option) \<times> world" where
  "upload_to_storage env w filename transaction_id user_id =
     (case filename of
        None \<Rightarrow> (Inr None, w)
      | Some f \<Rightarrow>
     (case transaction_id of
        None \<Rightarrow> (Inr None, w)
      | Some t \<Rightarrow>
     (case user_id of
        None \<Rightarrow> (Inr None, w)
      | Some u \<Rightarrow>
         (let file_path = os_path_join (output_dir env) f in
          if \<not> os_path_exists (fs w) file_path \<or> \<not> os_path_isfile (fs w) file_path
          then (Inr None, w)
          else
            (let bucket_name = SUPABASE_BUCKET_NAME env;
                 bucket_path = u @ ''/'' @ t @ ''/'' @ f
             in case storage_upload w bucket_name file_path bucket_path ''image/jpeg'' of
                  (Inl e, w1) \<Rightarrow> (Inl e, w1)
                | (Inr _, w1) \<Rightarrow> (Inr (Some (get_public_url env bucket_name bucket_path)), w1))))))"

section \<open>A concrete environment and world\<close>

text \<open>
  An installation under \<open>/app\<close> on 22 March 2024, with an empty output directory,
  a codec that accepts every array and a reachable, empty bucket.
\<close>

definition example_env :: env where
  "example_env =
     \<lparr>output_dir = ''/app/outputs/files'', SUPABASE_BUCKET_NAME = Some ''images'',
      fromarray_ok = (\<lambda>_. True), encoder_ok = (\<lambda>_ _. True), png_encode = concat,
      get_public_url =
        (\<lambda>b k. ''https://storage.example/'' @ (case b of None \<Rightarrow> ''None'' | Some n \<Rightarrow> n) @ ''/'' @ k)\<rparr>"

definition example_fs :: filesystem where
  "example_fs =
     [[] \<mapsto> Dir, [''app''] \<mapsto> Dir, [''app'', ''outputs''] \<mapsto> Dir,
      [''app'', ''outputs'', ''files''] \<mapsto> Dir]"

definition example_world :: world where
  "example_world =
     \<lparr>fs = example_fs, clock = \<lparr>year = 2024, month = 3, day = 22\<rparr>, logged = [],
      storage_up = True, storage_objects = Map.empty\<rparr>"

text \<open>The world after saving a two-sample image with metadata as \<open>t1.png\<close>.\<close>

definition example_saved :: world where
  "example_saved =
     snd (save_output_file example_env example_world [[0, 255]]
            (Some [(''metadata_scheme'', PStr ''v1''), (''prompt'', PStr ''x'')]) ''t1'' ''png'')"


text \<open>The world after that file was uploaded for transaction \<open>tx1\<close> of user \<open>u1\<close>.\<close>

definition example_uploaded :: world where
  "example_uploaded =
     snd (upload_to_storage example_env example_saved (Some ''2024-03-22/t1.png'') (Some ''tx1'') (Some ''u1''))"

section \<open>Properties of the string functions\<close>

lemma str_replace_char:
  "str_replace [a] [b] s = map (\<lambda>c. if c = a then b else c) s"
proof (induction s)
  case Nil
  show ?case by (simp add: str_replace.simps)
next
  case (Cons c cs)
  show ?case
  proof (cases "c = a")
    case True
    have "str_replace [a] [b] (c # cs) = [b] @ str_replace [a] [b] cs"
      using True by (subst str_replace.simps) simp
    with Cons True show ?thesis by simp
  next
    case False
    have "str_replace [a] [b] (c # cs) = c # str_replace [a] [b] cs"
      using False by (subst str_replace.simps) simp
    with Cons False show ?thesis by simp
  qed
qed

section \<open>The serving URL is string composition\<close>

text \<open>
  C6: \<open>get_file_serve_url\<close> is pure string composition. An absent input gives an
  absent result; for a string it returns the static server base followed by the
  input with every backslash replaced by a forward slash. The function takes no
  file system and no storage client. The instance below is
  \<open>serve_url("a\\b.png")\<close>, which ends in \<open>files/a/b.png\<close>.
\<close>

theorem get_file_serve_url_composition:
  "get_file_serve_url None = None \<and>
   get_file_serve_url (Some f) =
     Some (STATIC_SERVER_BASE @ map (\<lambda>c. if c = BACKSLASH then SLASH else c) f)"
  by (simp add: get_file_serve_url_def str_replace_char)

theorem get_file_serve_url_example:
  "get_file_serve_url (Some (''a'' @ [BACKSLASH] @ ''b.png'')) =
     Some ''http://127.0.0.1:8888/files/a/b.png''"
  using get_file_serve_url_composition [of "''a'' @ [BACKSLASH] @ ''b.png''"]
  by (simp add: STATIC_SERVER_BASE_def BACKSLASH_def SLASH_def)

section \<open>Absent results of the read operations\<close>

text \<open>
  C5: \<open>output_file_to_base64img\<close> and \<open>output_file_to_bytesimg\<close> return \<open>None\<close> for
  the input \<open>None\<close>, and return \<open>None\<close> without raising when the resolved path does
  not exist or is not a regular file.
\<close>

theorem read_absent:
  "output_file_to_base64img env w None = Inr None \<and>
   output_file_to_bytesimg env w None = Inr None \<and>
   (\<not> os_path_exists (fs w) (os_path_join (output_dir env) f) \<or>
    \<not> os_path_isfile (fs w) (os_path_join (output_dir env) f) \<longrightarrow>
      output_file_to_base64img env w (Some f) = Inr None \<and>
      output_file_to_bytesimg env w (Some f) = Inr None)"
  by (simp add: output_file_to_base64img_def output_file_to_bytesimg_def)

theorem read_absent_missing_file:
  "output_file_to_base64img example_env example_world (Some ''2024-03-22/missing.png'') = Inr None \<and>
   output_file_to_bytesimg example_env example_world (Some ''2024-03-22/missing.png'') = Inr None"
proof -
  have "\<not> os_path_exists (fs example_world)
          (os_path_join (output_dir example_env) ''2024-03-22/missing.png'')"
    by code_simp
  with read_absent [of example_env example_world "''2024-03-22/missing.png''"]
  show ?thesis by blast
qed

section \<open>Upload without its inputs\<close>

text \<open>
  C3: when the filename, the transaction id or the user id is absent,
  \<open>upload_to_storage\<close> returns \<open>None\<close> and leaves the world, the bucket store
  included, as it was: the storage client is not called. The same holds when
  all three are present and the resolved file does not exist or is not a regular
  file.
\<close>

theorem upload_absent:
  "(filename = None \<or> transaction_id = None \<or> user_id = None \<longrightarrow>
      upload_to_storage env w filename transaction_id user_id = (Inr None, w)) \<and>
   (\<not> os_path_exists (fs w) (os_path_join (output_dir env) f) \<or>
    \<not> os_path_isfile (fs w) (os_path_join (output_dir env) f) \<longrightarrow>
      upload_to_storage env w (Some f) (Some t) (Some u) = (Inr None, w))"
  by (auto simp: upload_to_storage_def split: option.splits)

theorem upload_absent_instances:
  "upload_to_storage example_env example_world (Some ''a.png'') None (Some ''u1'') =
     (Inr None, example_world) \<and>
   upload_to_storage example_env example_world (Some ''a.png'') (Some ''t1'') (Some ''u1'') =
     (Inr None, example_world)"
proof -
  have "\<not> os_path_exists (fs example_world) (os_path_join (output_dir example_env) ''a.png'')"
    by code_simp
  with upload_absent [of "Some ''a.png''" None "Some ''u1''" example_env example_world "''a.png''" "''t1''" "''u1''"]
  show ?thesis by blast
qed

section \<open>Base64 text and PNG bytes of a stored image\<close>

lemma b64_char_ascii: "b64_char n < 128"
proof -
  have a: "list_all (\<lambda>c. (of_char c :: nat) < 128) b64_alphabet"
    by (simp add: b64_alphabet_def)
  have l: "length b64_alphabet = 64"
    by (simp add: b64_alphabet_def)
  have "n mod 64 < length b64_alphabet"
    using l by simp
  with a show ?thesis
    unfolding b64_char_def by (simp add: list_all_length)
qed

lemma b64encode_ascii: "list_all (\<lambda>b. b < 128) (b64encode bs)"
  by (induction bs rule: b64encode.induct) (simp_all add: b64_char_ascii)

lemma decode_b64encode: "decode_utf8 (b64encode bs) = Some (map char_of (b64encode bs))"
  by (simp add: decode_utf8_def b64encode_ascii)

text \<open>
  C9: \<open>output_file_to_base64img\<close> and \<open>output_file_to_bytesimg\<close> agree on every
  filename. They raise the same exception or both return; one is \<open>None\<close> exactly
  when the other is; and when the bytes are present, the text is the UTF-8
  decoding of their standard base64 encoding, the bytes being the PNG encoding
  of the raster of the stored image.
\<close>

theorem base64_agrees_with_bytes:
  "output_file_to_base64img env w filename =
     (case output_file_to_bytesimg env w filename of
        Inl e \<Rightarrow> Inl e
      | Inr None \<Rightarrow> Inr None
      | Inr (Some byte_data) \<Rightarrow> Inr (decode_utf8 (b64encode byte_data))) \<and>
   ((output_file_to_base64img env w filename = Inr None) =
    (output_file_to_bytesimg env w filename = Inr None)) \<and>
   (output_file_to_bytesimg env w (Some f) = Inr (Some b) \<longrightarrow>
      decode_utf8 (b64encode b) = Some (map char_of (b64encode b)) \<and>
      (\<exists>img. image_open (fs w) (os_path_join (output_dir env) f) = Inr img \<and>
             b = png_encode env (pixels img)))"
  by (auto simp: output_file_to_base64img_def output_file_to_bytesimg_def decode_b64encode
        save_to_buffer_def Let_def split: option.splits sum.splits if_splits)

theorem base64_agrees_with_bytes_saved:
  "output_file_to_bytesimg example_env example_saved (Some ''2024-03-22/t1.png'') = Inr (Some [0, 255]) \<and>
   output_file_to_base64img example_env example_saved (Some ''2024-03-22/t1.png'') = Inr (Some ''AP8='')"
proof -
  have b: "output_file_to_bytesimg example_env example_saved (Some ''2024-03-22/t1.png'') =
             Inr (Some [0, 255])"
    by code_simp
  have d: "decode_utf8 (b64encode [0, 255]) = Some ''AP8=''"
    by code_simp
  from base64_agrees_with_bytes [of example_env example_saved "Some ''2024-03-22/t1.png''"] b d
  show ?thesis by simp
qed

section \<open>Exceptions of save\<close>


lemma add_text_not_KeyError: "add_text info key v \<noteq> Inl (KeyError k)"
  by (simp add: add_text_def split: pyval.splits)










section \<open>Deleting\<close>



lemma locate_no_nul:
  "NUL \<notin> set p \<Longrightarrow> locate fs0 p = Inl e \<Longrightarrow> is_OSError e"
  by (auto simp: locate_def split: if_splits sum.splits)






section \<open>Uploading\<close>

text \<open>
  C7, as amended: for a present filename, transaction id and user id whose
  resolved file exists as a regular file, \<open>upload_to_storage\<close> calls the storage
  client once, for the bucket named by the environment, with the key
  \<open>user_id/transaction_id/filename\<close> and the content type \<open>image/jpeg\<close>
  whatever the file holds. When the service accepts the upload (it is reachable
  and holds no object under that key) the object stored under the key is the
  file's content, and the result is the public URL the client derives for the
  bucket and the key; when the service refuses, its exception propagates and
  nothing is stored. As stated for every such call the claim fails: uploading
  the same artifact a second time raises.
\<close>

theorem upload_stores_under_key:
  assumes "os_path_exists (fs w) (os_path_join (output_dir env) f)"
    and "os_path_isfile (fs w) (os_path_join (output_dir env) f)"
  shows "\<exists>c. os_stat (fs w) (os_path_join (output_dir env) f) = Inr (File c) \<and>
     upload_to_storage env w (Some f) (Some t) (Some u) =
       (if storage_up w \<and> storage_objects w (SUPABASE_BUCKET_NAME env, u @ ''/'' @ t @ ''/'' @ f) = None
        then (Inr (Some (get_public_url env (SUPABASE_BUCKET_NAME env) (u @ ''/'' @ t @ ''/'' @ f))),
              w\<lparr>storage_objects := (storage_objects w)
                   ((SUPABASE_BUCKET_NAME env, u @ ''/'' @ t @ ''/'' @ f) \<mapsto>
                      \<lparr>object_data = c, content_type = ''image/jpeg''\<rparr>)\<rparr>)
        else (Inl StorageException, w))"
proof -
  from assms(2) obtain c where st: "os_stat (fs w) (os_path_join (output_dir env) f) = Inr (File c)"
    by (auto simp: os_path_isfile_def split: sum.splits node.splits)
  show ?thesis
    using assms st
    by (simp add: upload_to_storage_def storage_upload_def Let_def)
qed

theorem upload_twice_raises:
  "fst (upload_to_storage example_env example_uploaded (Some ''2024-03-22/t1.png'') (Some ''tx1'') (Some ''u1'')) =
     Inl StorageException"
  by code_simp

theorem upload_saved_file:
  "fst (upload_to_storage example_env example_saved (Some ''2024-03-22/t1.png'') (Some ''tx1'') (Some ''u1'')) =
     Inr (Some ''https://storage.example/images/u1/tx1/2024-03-22/t1.png'') \<and>
   map_option content_type
     (storage_objects
        (snd (upload_to_storage example_env example_saved (Some ''2024-03-22/t1.png'') (Some ''tx1'') (Some ''u1'')))
        (Some ''images'', ''u1/tx1/2024-03-22/t1.png'')) = Some ''image/jpeg''"
proof -
  have e: "os_path_exists (fs example_saved) (os_path_join (output_dir example_env) ''2024-03-22/t1.png'')"
    by code_simp
  have i: "os_path_isfile (fs example_saved) (os_path_join (output_dir example_env) ''2024-03-22/t1.png'')"
    by code_simp
  have up: "storage_up example_saved"
    by code_simp
  have b: "SUPABASE_BUCKET_NAME example_env = Some ''images''"
    by code_simp
  have free: "storage_objects example_saved (Some ''images'', ''u1/tx1/2024-03-22/t1.png'') = None"
    by code_simp
  have url: "get_public_url example_env (Some ''images'') ''u1/tx1/2024-03-22/t1.png'' =
      ''https://storage.example/images/u1/tx1/2024-03-22/t1.png''"
    by code_simp
  from upload_stores_under_key [OF e i, of "''tx1''" "''u1''"] up b free url
  show ?thesis by auto
qed

section \<open>Splitting and joining paths\<close>


lemma str_split_Cons_sep: "str_split sep (sep # s) = [] # str_split sep s"
  by simp















section \<open>The path save returns\<close>






section \<open>An extension outside the three formats\<close>

text \<open>
  C1 says that for an extension outside \<open>png\<close>, \<open>jpeg\<close>, \<open>webp\<close> the returned
  path names a \<open>.png\<close> file and the file on disk is a \<open>.png\<close> file. The code
  builds the filename before it coerces the extension: saving \<open>t1\<close> with
  extension \<open>gif\<close> returns \<open>2024-03-22/t1.gif\<close>, writes PNG data into
  \<open>t1.gif\<close> and creates no \<open>t1.png\<close>.
\<close>

theorem save_gif_keeps_extension:
  "fst (save_output_file example_env example_world [[0]] None ''t1'' ''gif'') = Inr ''2024-03-22/t1.gif'' \<and>
   fs (snd (save_output_file example_env example_world [[0]] None ''t1'' ''gif''))
      [''app'', ''outputs'', ''files'', ''2024-03-22'', ''t1.gif''] =
     Some (File (ImageData \<lparr>file_format = PNG, pixels = [[0]], text_chunks = []\<rparr>)) \<and>
   fs (snd (save_output_file example_env example_world [[0]] None ''t1'' ''gif''))
      [''app'', ''outputs'', ''files'', ''2024-03-22'', ''t1.png''] = None"
  by code_simp

section \<open>Resolving the returned path\<close>














section \<open>JSON written is JSON read\<close>





lemma cons_result_Some [simp]: "cons_result c (Some (t, r)) = Some (c # t, r)"
  by (simp add: cons_result_def)
































section \<open>Metadata written into a PNG is read back\<close>






end
